theory Spec2Isabelle
  imports Main
begin

section \<open>JavaScript text\<close>

text \<open>
  A JavaScript string is a sequence of UTF-16 code units and \<open>.length\<close> counts them.
  Text is modelled as \<open>string\<close>, one \<open>char\<close> per code unit, read as the code units
  U+0000 to U+00FF; text with a code unit above U+00FF is outside this model.

  \<open>isWhiteSpace\<close> is the class that \<open>String.prototype.trim\<close> strips and that \<open>\s\<close>
  matches in a regular expression (WhiteSpace and LineTerminator of ECMAScript):
  in this range TAB, LF, VT, FF, CR, SPACE and NO-BREAK SPACE.
\<close>

definition isWhiteSpace :: "char \<Rightarrow> bool" where
  "isWhiteSpace c =
     (let n = (of_char c :: nat)
      in n = 9 \<or> n = 10 \<or> n = 11 \<or> n = 12 \<or> n = 13 \<or> n = 32 \<or> n = 160)"

definition trim :: "string \<Rightarrow> string" where
  "trim s = rev (dropWhile isWhiteSpace (rev (dropWhile isWhiteSpace s)))"

text \<open>
  \<open>String.prototype.toLowerCase\<close> on this range: A to Z, and the letters U+00C0 to
  U+00DE other than the multiplication sign U+00D7, move up by 32; every other code unit
  is its own lower case.
\<close>

definition toLowerCase_char :: "char \<Rightarrow> char" where
  "toLowerCase_char c =
     (let n = (of_char c :: nat)
      in if (65 \<le> n \<and> n \<le> 90) \<or> (192 \<le> n \<and> n \<le> 222 \<and> n \<noteq> 215)
         then char_of (n + 32) else c)"

definition toLowerCase :: "string \<Rightarrow> string" where
  "toLowerCase s = map toLowerCase_char s"

section \<open>Exceptions and JSON values\<close>

text \<open>
  The exceptions of the model: a \<open>TypeError\<close> of the language, and the failure of a
  network call.
\<close>

datatype js_error = TypeError | NetworkError

definition andThen :: "js_error + 'a \<Rightarrow> ('a \<Rightarrow> js_error + 'b) \<Rightarrow> js_error + 'b" where
  "andThen r f = (case r of Inl e \<Rightarrow> Inl e | Inr x \<Rightarrow> f x)"

text \<open>
  What \<open>req.json()\<close> can return. A number is carried as the text that \<open>String\<close> gives
  for it, the only thing the handler ever asks of a number. The members of an object are
  listed in the order of the JSON text; where a name is repeated the last member wins, as
  in \<open>JSON.parse\<close>.
\<close>

datatype json =
    JNull
  | JBool bool
  | JNum string
  | JStr string
  | JArr "json list"
  | JObj "(string \<times> json) list"

text \<open>
  \<open>String(v)\<close> for a parsed value \<open>v\<close>. An array is joined with commas, \<open>null\<close>
  elements giving the empty text. An object converts through \<open>Object.prototype.toString\<close>
  unless it has a member of its own named \<open>toString\<close>: that member is never callable,
  \<open>valueOf\<close> gives no primitive either, and the conversion throws a \<open>TypeError\<close>.
\<close>

fun js_String :: "json \<Rightarrow> js_error + string"
  and js_join :: "json list \<Rightarrow> js_error + string" where
  "js_String JNull = Inr ''null''"
| "js_String (JBool b) = Inr (if b then ''true'' else ''false'')"
| "js_String (JNum r) = Inr r"
| "js_String (JStr s) = Inr s"
| "js_String (JArr xs) = js_join xs"
| "js_String (JObj kvs) =
     (if ''toString'' \<in> set (map fst kvs) then Inl TypeError else Inr ''[object Object]'')"
| "js_join [] = Inr []"
| "js_join (x # xs) =
     andThen (if x = JNull then Inr [] else js_String x) (\<lambda>s.
       if xs = [] then Inr s else andThen (js_join xs) (\<lambda>r. Inr (s @ '','' @ r)))"

text \<open>
  \<open>payload.k\<close> for the member names the handler reads (\<open>tenant\<close>, \<open>name\<close>, \<open>email\<close>,
  \<open>phone\<close>, \<open>company_name\<close>, \<open>contact_type\<close>, \<open>message\<close>, \<open>company_website\<close>), none of
  which is inherited from a prototype: \<open>None\<close> is \<open>undefined\<close>. Reading a member of
  \<open>null\<close> throws; a number, a boolean, a string and an array have no such member.
\<close>

definition get_prop :: "json \<Rightarrow> string \<Rightarrow> js_error + json option" where
  "get_prop v k =
     (case v of
        JNull \<Rightarrow> Inl TypeError
      | JObj kvs \<Rightarrow> Inr (map_of (rev kvs) k)
      | _ \<Rightarrow> Inr None)"

text \<open>\<open>String(v ?? "")\<close>: \<open>undefined\<close> and \<open>null\<close> give the empty text.\<close>

definition String_or_empty :: "json option \<Rightarrow> js_error + string" where
  "String_or_empty v =
     (case v of None \<Rightarrow> Inr [] | Some JNull \<Rightarrow> Inr [] | Some x \<Rightarrow> js_String x)"

section \<open>Helpers of the edge function\<close>

definition HONEYPOT_FIELD :: string where
  "HONEYPOT_FIELD = ''company_website''"

definition CONTACT_TYPES :: "string list" where
  "CONTACT_TYPES = [''budget_request'', ''general_query'', ''commercial_proposal'', ''other'']"

definition normalizeTenantSlug :: "string \<Rightarrow> string" where
  "normalizeTenantSlug s = toLowerCase (trim s)"

definition normalizeContactType :: "json option \<Rightarrow> js_error + string" where
  "normalizeContactType v =
     andThen (String_or_empty v) (\<lambda>s.
       let raw = toLowerCase (trim s)
       in if raw \<in> set CONTACT_TYPES then Inr raw else Inr ''general_query'')"

text \<open>
  \<open>isValidEmail\<close> tests \<^verbatim>\<open>/^[^\s@]+@[^\s@]+\.[^\s@]+$/\<close>. The class \<open>[^\s@]\<close> is
  \<open>email_char\<close>. The first run of the class cannot pass an \<open>@\<close>, so it is the longest
  prefix in the class and the next code unit must be the \<open>@\<close>; what follows must stay in
  the class to the end and hold a dot that is neither its first nor its last code unit.
\<close>

definition email_char :: "char \<Rightarrow> bool" where
  "email_char c = (\<not> isWhiteSpace c \<and> c \<noteq> CHR ''@'')"

definition isValidEmail :: "string \<Rightarrow> bool" where
  "isValidEmail email =
     (case dropWhile email_char email of
        [] \<Rightarrow> False
      | a # domain \<Rightarrow>
          takeWhile email_char email \<noteq> [] \<and> a = CHR ''@'' \<and> list_all email_char domain \<and>
          CHR ''.'' \<in> set (butlast (tl domain)))"

section \<open>Requests and responses\<close>

text \<open>
  A request as the handler reads it: the method, \<open>req.headers.get\<close> as a map from the
  lower-case header name (\<open>None\<close> is \<open>null\<close>), and the result of \<open>req.json()\<close>, where
  \<open>None\<close> stands for the call throwing because the body is not JSON text.
\<close>

record request =
  req_method :: string
  headers :: "string \<rightharpoonup> string"
  body :: "json option"

text \<open>
  A response: the status, the headers as a list of pairs, and the value that
  \<open>JSON.stringify\<close> serialises into the body (\<open>None\<close> for the empty body of the preflight
  answer).
\<close>

record response =
  status :: nat
  resp_headers :: "(string \<times> string) list"
  resp_body :: "json option"

text \<open>A string that JavaScript treats as true in a condition: present and not empty.\<close>

definition truthy :: "string option \<Rightarrow> string option" where
  "truthy v = (case v of None \<Rightarrow> None | Some s \<Rightarrow> if s = [] then None else Some s)"

definition STEALTH_MODE_ALWAYS_200 :: bool where
  "STEALTH_MODE_ALWAYS_200 = True"

definition jsonResponse :: "nat \<Rightarrow> json \<Rightarrow> (string \<times> string) list \<Rightarrow> response" where
  "jsonResponse st b hs =
     \<lparr>status = st,
      resp_headers = (''content-type'', ''application/json; charset=utf-8'') # hs,
      resp_body = Some b\<rparr>"

definition getRequestOrigin :: "request \<Rightarrow> string" where
  "getRequestOrigin req = (case headers req ''origin'' of None \<Rightarrow> [] | Some v \<Rightarrow> v)"

definition getClientIp :: "request \<Rightarrow> string" where
  "getClientIp req =
     (case truthy (headers req ''x-forwarded-for'') of
        Some xff \<Rightarrow> trim (takeWhile (\<lambda>c. c \<noteq> CHR '','') xff)
      | None \<Rightarrow>
          (case truthy (headers req ''x-real-ip'') of
             Some real \<Rightarrow> trim real
           | None \<Rightarrow> ''0.0.0.0''))"

definition getUserAgent :: "request \<Rightarrow> string" where
  "getUserAgent req = (case headers req ''user-agent'' of None \<Rightarrow> [] | Some v \<Rightarrow> v)"

definition corsHeaders :: "string \<Rightarrow> (string \<times> string) list" where
  "corsHeaders origin =
     [(''access-control-allow-origin'', origin),
      (''access-control-allow-methods'', ''POST, OPTIONS''),
      (''access-control-allow-headers'', ''content-type''),
      (''access-control-max-age'', ''86400''),
      (''vary'', ''Origin'')]"

definition ok_body :: json where
  "ok_body = JObj [(''ok'', JBool True)]"

definition error_body :: "string \<Rightarrow> json" where
  "error_body code = JObj [(''error'', JStr code)]"

definition okStealth :: "string \<Rightarrow> response" where
  "okStealth origin = jsonResponse 200 ok_body (if origin \<noteq> [] then corsHeaders origin else [])"

section \<open>The database\<close>

text \<open>
  The tables of the DDL. A row of \<open>tenant_contact_settings\<close> is found by its primary key
  \<open>tenant_slug\<close>; \<open>None\<close> in a column is SQL \<open>NULL\<close>, which the handler allows for with
  \<open>??\<close>. A counter is found by its primary key (tenant, address, hour). An \<open>inet\<close> value
  is written as the text in which Postgres prints it. A \<open>timestamptz\<close> is a number of
  microseconds. Outbound webhook calls are recorded in \<open>slack_posts\<close>.
\<close>

type_synonym inet = string

record TenantSettings =
  allowed_origins :: "string list option"
  slack_webhook_url :: string
  rate_limit_per_hour :: "int option"
  enabled :: bool

record form_submission =
  row_tenant_slug :: string
  row_name :: string
  row_email :: string
  row_phone :: "string option"
  row_company_name :: "string option"
  row_contact_type :: string
  row_message :: string
  row_ip :: "string option"
  row_user_agent :: "string option"

record world =
  tenant_contact_settings :: "string \<rightharpoonup> TenantSettings"
  rate_limit_counters :: "string \<times> inet \<times> int \<rightharpoonup> int"
  form_submissions :: "form_submission list"
  slack_posts :: "(string \<times> string) list"

datatype pg_error = foreign_key_violation | numeric_value_out_of_range

text \<open>\<open>date_trunc('hour', t)\<close>, for a session whose time zone is a whole number of hours from UTC.\<close>

definition date_trunc_hour :: "int \<Rightarrow> int" where
  "date_trunc_hour t = t - t mod 3600000000"

text \<open>
  The function \<open>check_and_increment_rate_limit\<close> of the DDL, run at time \<open>now\<close>. The insert
  of a new counter is checked against the foreign key to \<open>tenant_contact_settings\<close>; the
  update of an existing one adds 1 to a 32-bit \<open>integer\<close>, which Postgres refuses with an
  error where the sum does not fit. An error leaves the tables as they were.
\<close>

definition check_and_increment_rate_limit ::
  "int \<Rightarrow> world \<Rightarrow> string \<Rightarrow> inet \<Rightarrow> int \<Rightarrow> pg_error + bool \<times> world" where
  "check_and_increment_rate_limit now w p_tenant_slug p_ip p_limit =
     (let v_bucket = date_trunc_hour now;
          key = (p_tenant_slug, p_ip, v_bucket)
      in case rate_limit_counters w key of
           None \<Rightarrow>
             if tenant_contact_settings w p_tenant_slug = None then Inl foreign_key_violation
             else Inr (1 \<le> p_limit, w\<lparr>rate_limit_counters := (rate_limit_counters w)(key \<mapsto> 1)\<rparr>)
         | Some c \<Rightarrow>
             if c = 2147483647 then Inl numeric_value_out_of_range
             else let v_count = c + 1
                  in Inr (v_count \<le> p_limit,
                          w\<lparr>rate_limit_counters := (rate_limit_counters w)(key \<mapsto> v_count)\<rparr>))"

section \<open>The calls to the outside\<close>

text \<open>
  What the outside does during one request: the database clock, the conversion of text to
  \<open>inet\<close> (\<open>None\<close> where Postgres rejects the text), whether the settings query and the
  RPC come back with an error, and what becomes of the insert of the audit row.
\<close>

datatype insert_outcome = InsertOk | InsertError | InsertThrows

record backend =
  clock :: int
  inet_in :: "string \<Rightarrow> inet option"
  settings_error :: bool
  rpc_error :: bool
  insert_result :: insert_outcome

text \<open>
  The settings query: the pair of \<open>data\<close> and whether there is an \<open>error\<close>.
\<close>

definition select_settings :: "backend \<Rightarrow> world \<Rightarrow> string \<Rightarrow> TenantSettings option \<times> bool" where
  "select_settings b w tenant =
     (if settings_error b then (None, True) else (tenant_contact_settings w tenant, False))"

text \<open>
  The RPC call: \<open>data\<close> (\<open>None\<close> is \<open>null\<close>), whether there is an \<open>error\<close>, and the
  database afterwards.
\<close>

definition rpc_rate_limit ::
  "backend \<Rightarrow> world \<Rightarrow> string \<Rightarrow> string \<Rightarrow> int \<Rightarrow> (bool option \<times> bool) \<times> world" where
  "rpc_rate_limit b w p_tenant_slug p_ip p_limit =
     (if rpc_error b then ((None, True), w)
      else case inet_in b p_ip of
             None \<Rightarrow> ((None, True), w)
           | Some a \<Rightarrow>
               (case check_and_increment_rate_limit (clock b) w p_tenant_slug a p_limit of
                  Inl e \<Rightarrow> ((None, True), w)
                | Inr (r, w') \<Rightarrow> ((Some r, False), w')))"

text \<open>
  The insert of the audit row: it throws, or returns whether there is an \<open>error\<close> and the
  database afterwards.
\<close>

definition insert_submission ::
  "backend \<Rightarrow> world \<Rightarrow> form_submission \<Rightarrow> js_error + bool \<times> world" where
  "insert_submission b w row =
     (case insert_result b of
        InsertOk \<Rightarrow> Inr (False, w\<lparr>form_submissions := form_submissions w @ [row]\<rparr>)
      | InsertError \<Rightarrow> Inr (True, w)
      | InsertThrows \<Rightarrow> Inl NetworkError)"

text \<open>
  \<open>postToSlack\<close>: one POST to the webhook, whatever its outcome, and \<open>true\<close> only for a
  2xx answer.
\<close>

datatype fetch_outcome = FetchOk | FetchNotOk | FetchThrows

definition postToSlack :: "fetch_outcome \<Rightarrow> world \<Rightarrow> string \<Rightarrow> string \<Rightarrow> bool \<times> world" where
  "postToSlack f w webhookUrl txt =
     (let w' = w\<lparr>slack_posts := slack_posts w @ [(webhookUrl, txt)]\<rparr>
      in case f of FetchOk \<Rightarrow> (True, w') | FetchNotOk \<Rightarrow> (False, w') | FetchThrows \<Rightarrow> (False, w'))"

section \<open>The handler\<close>

text \<open>
  The fields that the handler takes from the payload, in the order of the source; a
  conversion that throws ends the extraction.
\<close>

record fields =
  tenant :: string
  name :: string
  email :: string
  phone :: string
  company_name :: string
  contact_type :: string
  message :: string
  honeypot :: string

definition String_prop :: "json \<Rightarrow> string \<Rightarrow> js_error + string" where
  "String_prop payload k = andThen (get_prop payload k) String_or_empty"

definition extract_fields :: "json \<Rightarrow> js_error + fields" where
  "extract_fields payload =
     andThen (String_prop payload ''tenant'') (\<lambda>v_tenant.
     andThen (String_prop payload ''name'') (\<lambda>v_name.
     andThen (String_prop payload ''email'') (\<lambda>v_email.
     andThen (String_prop payload ''phone'') (\<lambda>v_phone.
     andThen (String_prop payload ''company_name'') (\<lambda>v_company_name.
     andThen (andThen (get_prop payload ''contact_type'') normalizeContactType) (\<lambda>v_contact_type.
     andThen (String_prop payload ''message'') (\<lambda>v_message.
     andThen (String_prop payload HONEYPOT_FIELD) (\<lambda>v_honeypot.
       Inr \<lparr>tenant = normalizeTenantSlug v_tenant,
            name = trim v_name,
            email = toLowerCase (trim v_email),
            phone = trim v_phone,
            company_name = trim v_company_name,
            contact_type = v_contact_type,
            message = trim v_message,
            honeypot = trim v_honeypot\<rparr>))))))))"

text \<open>
  The basic validation: the error code of the first check that fails, \<open>None\<close> when every
  check passes.
\<close>

definition MAX_NAME_LEN :: nat where "MAX_NAME_LEN = 120"
definition MAX_EMAIL_LEN :: nat where "MAX_EMAIL_LEN = 180"
definition MAX_PHONE_LEN :: nat where "MAX_PHONE_LEN = 50"
definition MAX_COMPANY_NAME_LEN :: nat where "MAX_COMPANY_NAME_LEN = 160"
definition MAX_MESSAGE_LEN :: nat where "MAX_MESSAGE_LEN = 4000"

definition validate :: "fields \<Rightarrow> string option" where
  "validate f =
     (if tenant f = [] \<or> length (tenant f) > 64 then Some ''invalid_tenant''
      else if name f = [] \<or> length (name f) > MAX_NAME_LEN then Some ''invalid_name''
      else if email f = [] \<or> length (email f) > MAX_EMAIL_LEN \<or> \<not> isValidEmail (email f)
        then Some ''invalid_email''
      else if length (phone f) > MAX_PHONE_LEN then Some ''invalid_phone''
      else if length (company_name f) > MAX_COMPANY_NAME_LEN then Some ''invalid_company_name''
      else if message f = [] \<or> length (message f) > MAX_MESSAGE_LEN then Some ''invalid_message''
      else None)"

text \<open>
  The row that the handler hands to the insert into \<open>form_submissions\<close>; the columns
  \<open>id\<close> and \<open>created_at\<close> are filled in by the database.
\<close>

definition submission_row :: "fields \<Rightarrow> string \<Rightarrow> string \<Rightarrow> form_submission" where
  "submission_row f ip user_agent =
     \<lparr>row_tenant_slug = tenant f,
      row_name = name f,
      row_email = email f,
      row_phone = truthy (Some (phone f)),
      row_company_name = truthy (Some (company_name f)),
      row_contact_type = contact_type f,
      row_message = message f,
      row_ip = (if ip = ''0.0.0.0'' then None else Some ip),
      row_user_agent = truthy (Some user_agent)\<rparr>"

text \<open>
  The handler from the origin allowlist on, for a tenant whose settings are loaded: the
  allowlist (\<open>settings.allowed_origins ?? []\<close>), the rate limit (with
  \<open>settings.rate_limit_per_hour ?? 10\<close>), the audit row and the answer. The text for Slack is built
  there from the fields and never used, the call of \<open>postToSlack\<close> being commented out;
  it is left out here.
\<close>

definition allowedOrigins :: "TenantSettings \<Rightarrow> string list" where
  "allowedOrigins settings = (case allowed_origins settings of None \<Rightarrow> [] | Some os \<Rightarrow> os)"

definition p_limit :: "TenantSettings \<Rightarrow> int" where
  "p_limit settings = (case rate_limit_per_hour settings of None \<Rightarrow> 10 | Some n \<Rightarrow> n)"

definition admit ::
  "backend \<Rightarrow> world \<Rightarrow> request \<Rightarrow> string \<Rightarrow> fields \<Rightarrow> TenantSettings \<Rightarrow> response \<times> world" where
  "admit b w req origin f settings =
     (if origin = [] \<or> origin \<notin> set (allowedOrigins settings)
      then (if STEALTH_MODE_ALWAYS_200 then okStealth origin
            else jsonResponse 403 (error_body ''forbidden_origin'') (corsHeaders origin), w)
      else
        let ip = getClientIp req;
            user_agent = getUserAgent req;
            ((allowed, rlErr), w1) = rpc_rate_limit b w (tenant f) ip (p_limit settings)
        in if rlErr \<or> allowed \<noteq> Some True
           then (if STEALTH_MODE_ALWAYS_200 then okStealth origin
                 else jsonResponse 429 (error_body ''rate_limited'') (corsHeaders origin), w1)
           else
             let w2 =
                   (case insert_submission b w1 (submission_row f ip user_agent) of
                      Inl e \<Rightarrow> w1
                    | Inr (insertErr, w') \<Rightarrow> w')
             in (jsonResponse 200 ok_body (corsHeaders origin), w2))"

text \<open>
  The handler from the honeypot on, for the extracted fields: the honeypot, the basic
  validation and the loading of the tenant's settings.
\<close>

definition screen :: "backend \<Rightarrow> world \<Rightarrow> request \<Rightarrow> string \<Rightarrow> fields \<Rightarrow> response \<times> world" where
  "screen b w req origin f =
     (if length (honeypot f) > 0 then (okStealth origin, w)
      else case validate f of
        Some code \<Rightarrow>
          (if STEALTH_MODE_ALWAYS_200 then okStealth origin
           else jsonResponse 400 (error_body code) [], w)
      | None \<Rightarrow>
          (case select_settings b w (tenant f) of
             (settings, settingsErr) \<Rightarrow>
               (case settings of
                  None \<Rightarrow> (okStealth origin, w)
                | Some st \<Rightarrow>
                    if settingsErr \<or> \<not> enabled st then (okStealth origin, w)
                    else admit b w req origin f st)))"

text \<open>
  The handler given to \<open>Deno.serve\<close>, for the environment \<open>env\<close> (\<open>Deno.env.get\<close>). It
  returns the response, or the exception that it lets escape, and the world afterwards.
  \<open>createClient\<close> is taken to return a client for every URL and key that are not empty.
  What the handler writes to the console is not part of the model.
\<close>

definition handler ::
  "backend \<Rightarrow> (string \<rightharpoonup> string) \<Rightarrow> world \<Rightarrow> request \<Rightarrow> (js_error + response) \<times> world" where
  "handler b env w req =
     (let origin = getRequestOrigin req
      in if req_method req = ''OPTIONS''
         then (Inr \<lparr>status = 204, resp_headers = corsHeaders origin, resp_body = None\<rparr>, w)
         else if req_method req \<noteq> ''POST''
         then (Inr (jsonResponse 405 (error_body ''method_not_allowed'') []), w)
         else if truthy (env ''SUPABASE_URL'') = None \<or> truthy (env ''SUPABASE_SERVICE_ROLE_KEY'') = None
         then (Inr (jsonResponse 500 (error_body ''server_misconfigured'') []), w)
         else case body req of
           None \<Rightarrow>
             (Inr (if STEALTH_MODE_ALWAYS_200 then okStealth origin
                   else jsonResponse 400 (error_body ''invalid_json'') []), w)
         | Some payload \<Rightarrow>
             (case extract_fields payload of
                Inl e \<Rightarrow> (Inl e, w)
              | Inr f \<Rightarrow> (case screen b w req origin f of (r, w') \<Rightarrow> (Inr r, w'))))"

text \<open>
  The payloads of the declared type \<open>ContactPayload\<close>: an object in which each member
  that the handler reads is absent or a string.
\<close>

definition text_member :: "(string \<times> json) list \<Rightarrow> string \<Rightarrow> bool" where
  "text_member kvs k =
     (case map_of (rev kvs) k of None \<Rightarrow> True | Some (JStr s) \<Rightarrow> True | Some _ \<Rightarrow> False)"

definition is_ContactPayload :: "json \<Rightarrow> bool" where
  "is_ContactPayload p =
     (case p of
        JObj kvs \<Rightarrow>
          list_all (text_member kvs)
            [''tenant'', ''name'', ''email'', ''phone'', ''company_name'', ''contact_type'',
             ''message'', HONEYPOT_FIELD]
      | _ \<Rightarrow> False)"

section \<open>Runs of the rate limiter\<close>

text \<open>
  A sequence of calls of \<open>check_and_increment_rate_limit\<close> for one tenant, address and
  limit, one call at each of the given times, each on the tables that the call before it
  left: the answers in order, and the tables at the end. An error ends the run.
\<close>

fun attempts ::
  "int list \<Rightarrow> world \<Rightarrow> string \<Rightarrow> inet \<Rightarrow> int \<Rightarrow> pg_error + bool list \<times> world" where
  "attempts [] w t ip l = Inr ([], w)"
| "attempts (now # ts) w t ip l =
     (case check_and_increment_rate_limit now w t ip l of
        Inl e \<Rightarrow> Inl e
      | Inr (r, w') \<Rightarrow>
          (case attempts ts w' t ip l of
             Inl e \<Rightarrow> Inl e
           | Inr (rs, w'') \<Rightarrow> Inr (r # rs, w'')))"

text \<open>The count that a counter row stands for: no row counts as 0.\<close>

definition count_of :: "int option \<Rightarrow> int" where
  "count_of c = (case c of None \<Rightarrow> 0 | Some n \<Rightarrow> n)"

section \<open>An example deployment\<close>

text \<open>
  The seed tenant of the DDL and the request of the README's \<open>curl\<close> example, against a
  database that takes every non-empty text as an address and answers without errors.
\<close>

definition example_settings :: TenantSettings where
  "example_settings =
     \<lparr>allowed_origins = Some [''https://cf-obras-civiles-web-kplb.bolt.host''],
      slack_webhook_url = ''https://hooks.slack.com/services/XXX/YYY/ZZZ'',
      rate_limit_per_hour = Some 10,
      enabled = True\<rparr>"

definition example_world :: world where
  "example_world =
     \<lparr>tenant_contact_settings = [''cfobras'' \<mapsto> example_settings],
      rate_limit_counters = Map.empty,
      form_submissions = [],
      slack_posts = []\<rparr>"

definition example_env :: "string \<rightharpoonup> string" where
  "example_env =
     [''SUPABASE_URL'' \<mapsto> ''https://project.supabase.co'',
      ''SUPABASE_SERVICE_ROLE_KEY'' \<mapsto> ''service-role-key'']"

definition example_backend :: backend where
  "example_backend =
     \<lparr>clock = 0,
      inet_in = (\<lambda>s. if s = [] then None else Some s),
      settings_error = False,
      rpc_error = False,
      insert_result = InsertOk\<rparr>"

definition example_members :: "(string \<times> json) list" where
  "example_members =
     [(''tenant'', JStr ''cfobras''),
      (''name'', JStr ''Test User''),
      (''email'', JStr ''test@example.com''),
      (''company_name'', JStr ''Test Corp''),
      (''contact_type'', JStr ''general_query''),
      (''message'', JStr ''Este es un mensaje de prueba con nuevos campos''),
      (''company_website'', JStr [])]"

definition example_payload :: json where
  "example_payload = JObj example_members"

text \<open>The fields that the handler takes from the example payload.\<close>

definition example_fields :: fields where
  "example_fields =
     \<lparr>tenant = ''cfobras'',
      name = ''Test User'',
      email = ''test@example.com'',
      phone = [],
      company_name = ''Test Corp'',
      contact_type = ''general_query'',
      message = ''Este es un mensaje de prueba con nuevos campos'',
      honeypot = []\<rparr>"

definition example_request :: request where
  "example_request =
     \<lparr>req_method = ''POST'',
      headers = [''origin'' \<mapsto> ''https://cf-obras-civiles-web-kplb.bolt.host''],
      body = Some example_payload\<rparr>"

section \<open>Properties of the rate limiter\<close>

lemma rate_limit_step:
  assumes "rate_limit_counters w (t, ip, date_trunc_hour now) = c"
    and "tenant_contact_settings w t \<noteq> None"
    and "count_of c < 2147483647"
  shows "check_and_increment_rate_limit now w t ip l =
           Inr (count_of c + 1 \<le> l,
                w\<lparr>rate_limit_counters :=
                    (rate_limit_counters w)((t, ip, date_trunc_hour now) \<mapsto> count_of c + 1)\<rparr>)"
  using assms
  by (cases c) (auto simp: check_and_increment_rate_limit_def Let_def count_of_def)

lemma attempts_run:
  assumes "\<forall>now \<in> set ts. date_trunc_hour now = h"
    and "rate_limit_counters w (t, ip, h) = c"
    and "tenant_contact_settings w t \<noteq> None"
    and "count_of c + int (length ts) \<le> 2147483647"
  shows "attempts ts w t ip l =
           Inr (map (\<lambda>i. count_of c + 1 + int i \<le> l) [0..<length ts],
                if ts = [] then w
                else w\<lparr>rate_limit_counters :=
                         (rate_limit_counters w)((t, ip, h) \<mapsto> count_of c + int (length ts))\<rparr>)"
  using assms
proof (induction ts arbitrary: w c)
  case Nil
  then show ?case by simp
next
  case (Cons now ts)
  define k where "k = count_of c"
  define w1 where "w1 = w\<lparr>rate_limit_counters := (rate_limit_counters w)((t, ip, h) \<mapsto> k + 1)\<rparr>"
  have h: "date_trunc_hour now = h" using Cons.prems(1) by simp
  have step: "check_and_increment_rate_limit now w t ip l = Inr (k + 1 \<le> l, w1)"
    using rate_limit_step [of w t ip now c l] Cons.prems h by (simp add: k_def w1_def)
  have "attempts ts w1 t ip l =
           Inr (map (\<lambda>i. count_of (Some (k + 1)) + 1 + int i \<le> l) [0..<length ts],
                if ts = [] then w1
                else w1\<lparr>rate_limit_counters :=
                         (rate_limit_counters w1)((t, ip, h) \<mapsto> count_of (Some (k + 1)) + int (length ts))\<rparr>)"
    using Cons.prems by (intro Cons.IH) (auto simp: count_of_def k_def w1_def)
  then have rest: "attempts ts w1 t ip l =
           Inr (map (\<lambda>i. k + 1 + 1 + int i \<le> l) [0..<length ts],
                w\<lparr>rate_limit_counters :=
                         (rate_limit_counters w)((t, ip, h) \<mapsto> k + 1 + int (length ts))\<rparr>)"
    by (simp add: count_of_def w1_def)
  have shift: "map (\<lambda>i. k + 1 + int i \<le> l) [0..<length (now # ts)] =
        (k + 1 \<le> l) # map (\<lambda>i. k + 1 + 1 + int i \<le> l) [0..<length ts]"
    by (simp add: upt_conv_Cons map_Suc_upt [symmetric] del: upt_Suc)
       (simp add: add.commute add.left_commute)
  have len: "k + int (length (now # ts)) = k + 1 + int (length ts)"
    by simp
  show ?case
    unfolding k_def [symmetric] shift len
    by (simp add: step rest)
qed

lemma admitted_prefix:
  fixes l :: int and n :: nat
  defines "a \<equiv> nat (min (int n) l)"
  shows "map (\<lambda>i. 1 + int i \<le> l) [0..<n] = replicate a True @ replicate (n - a) False"
proof (rule nth_equalityI)
  show "length (map (\<lambda>i. 1 + int i \<le> l) [0..<n]) =
        length (replicate a True @ replicate (n - a) False)"
    by (simp add: a_def)
next
  fix i
  assume "i < length (map (\<lambda>i. 1 + int i \<le> l) [0..<n])"
  then have i: "i < n" by simp
  have "(1 + int i \<le> l) = (i < a)"
    using i by (auto simp: a_def)
  then show "map (\<lambda>i. 1 + int i \<le> l) [0..<n] ! i =
             (replicate a True @ replicate (n - a) False) ! i"
    using i by (simp add: nth_append)
qed

text \<open>
  Claim C1. Each call of the rate limiter for a key (tenant, address, hour) adds exactly
  one to the key's counter, creating it at 1 on first use, and answers true exactly when
  the count after the increment is at most the limit; a rejection keeps its increment.
  So a run of \<open>N\<close> calls on one key, from a counter that stands at \<open>count_of c\<close>, ends
  with the counter at \<open>count_of c + N\<close>, the call number \<open>i + 1\<close> answering true exactly
  when \<open>count_of c + (i + 1)\<close> is at most the limit, and leaves every other counter
  alone; from a fresh key the counter ends at \<open>N\<close> and the calls that answer true are the
  first \<open>min N limit\<close>, and no others. The tenant is one of the settings table, as the
  foreign key of the counters demands, and the count stays within the 32-bit \<open>integer\<close>
  of the column.
\<close>

theorem tryAdmit_counts_every_attempt:
  assumes "\<forall>now \<in> set ts. date_trunc_hour now = h"
    and "rate_limit_counters w (t, ip, h) = c"
    and "tenant_contact_settings w t \<noteq> None"
    and "count_of c + int (length ts) \<le> 2147483647"
  shows "\<exists>rs w'. attempts ts w t ip l = Inr (rs, w')
           \<and> length rs = length ts
           \<and> (\<forall>i < length ts. rs ! i = (count_of c + int (i + 1) \<le> l))
           \<and> rate_limit_counters w' (t, ip, h) =
               (if ts = [] then c else Some (count_of c + int (length ts)))
           \<and> (\<forall>key. key \<noteq> (t, ip, h) \<longrightarrow> rate_limit_counters w' key = rate_limit_counters w key)
           \<and> (c = None \<longrightarrow>
                 rs = replicate (nat (min (int (length ts)) l)) True
                        @ replicate (length ts - nat (min (int (length ts)) l)) False
                 \<and> length (filter id rs) = nat (min (int (length ts)) l))"
proof -
  let ?rs = "map (\<lambda>i. count_of c + 1 + int i \<le> l) [0..<length ts]"
  let ?w' = "if ts = [] then w
             else w\<lparr>rate_limit_counters :=
                      (rate_limit_counters w)((t, ip, h) \<mapsto> count_of c + int (length ts))\<rparr>"
  have run: "attempts ts w t ip l = Inr (?rs, ?w')"
    using assms by (rule attempts_run)
  have nth: "\<forall>i < length ts. ?rs ! i = (count_of c + int (i + 1) \<le> l)"
    by (simp add: add.commute add.left_commute)
  have final: "rate_limit_counters ?w' (t, ip, h) =
               (if ts = [] then c else Some (count_of c + int (length ts)))"
    using assms(2) by simp
  have others: "\<forall>key. key \<noteq> (t, ip, h) \<longrightarrow> rate_limit_counters ?w' key = rate_limit_counters w key"
    by simp
  have fresh: "c = None \<longrightarrow>
                 ?rs = replicate (nat (min (int (length ts)) l)) True
                        @ replicate (length ts - nat (min (int (length ts)) l)) False
                 \<and> length (filter id ?rs) = nat (min (int (length ts)) l)"
  proof
    assume "c = None"
    then have eq: "?rs = replicate (nat (min (int (length ts)) l)) True
                        @ replicate (length ts - nat (min (int (length ts)) l)) False"
      using admitted_prefix [of l "length ts"] by (simp add: count_of_def)
    show "?rs = replicate (nat (min (int (length ts)) l)) True
                        @ replicate (length ts - nat (min (int (length ts)) l)) False
                 \<and> length (filter id ?rs) = nat (min (int (length ts)) l)"
      unfolding eq by simp
  qed
  show ?thesis
    using run nth final others fresh by (intro exI [of _ ?rs] exI [of _ ?w'] conjI) simp_all
qed

text \<open>
  Three calls within one hour for the seed tenant, from a fresh key and with limit 2: the
  first two are admitted, the third is not, and the counter stands at 3.
\<close>

theorem tryAdmit_counts_every_attempt_witness:
  "\<exists>rs w'. attempts [0, 1, 2] example_world ''cfobras'' ''203.0.113.7'' 2 = Inr (rs, w')
      \<and> rs = [True, True, False]
      \<and> rate_limit_counters w' (''cfobras'', ''203.0.113.7'', 0) = Some 3"
  using tryAdmit_counts_every_attempt
          [of "[0, 1, 2]" 0 example_world "''cfobras''" "''203.0.113.7''" None 2]
  by (auto simp: example_world_def date_trunc_hour_def count_of_def numeral_2_eq_2
           simp del: attempts.simps)

section \<open>The e-mail pattern\<close>

text \<open>
  \<open>isValidEmail\<close> accepts the language of the pattern: one or more code units of the
  class, an \<open>@\<close>, one or more of the class, a dot, one or more of the class.
\<close>

lemma email_char_dot: "email_char CHR ''.''"
  by (simp add: email_char_def isWhiteSpace_def)

lemma email_char_at: "\<not> email_char CHR ''@''"
  by (simp add: email_char_def)

lemma isValidEmail_matches:
  "isValidEmail e \<longleftrightarrow>
     (\<exists>a b c. e = a @ ''@'' @ b @ ''.'' @ c \<and> a \<noteq> [] \<and> b \<noteq> [] \<and> c \<noteq> []
        \<and> list_all email_char a \<and> list_all email_char b \<and> list_all email_char c)"
proof
  assume v: "isValidEmail e"
  then obtain x domain where rest: "dropWhile email_char e = x # domain"
    by (auto simp: isValidEmail_def split: list.splits)
  define a where "a = takeWhile email_char e"
  have facts: "a \<noteq> []" "x = CHR ''@''" "list_all email_char domain"
    "CHR ''.'' \<in> set (butlast (tl domain))"
    using v rest by (simp_all add: isValidEmail_def a_def)
  have e: "e = a @ ''@'' @ domain"
    using takeWhile_dropWhile_id [of email_char e] rest facts(2) by (simp add: a_def)
  obtain xs ys where mid: "butlast (tl domain) = xs @ CHR ''.'' # ys"
    using facts(4) by (meson split_list)
  have tl_ne: "tl domain \<noteq> []"
    using mid by auto
  then obtain d0 where d0: "domain = d0 # tl domain"
    by (cases domain) auto
  have tl_parts: "tl domain = xs @ CHR ''.'' # ys @ [last (tl domain)]"
    using append_butlast_last_id [OF tl_ne] mid by simp
  define b where "b = d0 # xs"
  define c where "c = ys @ [last (tl domain)]"
  have dom: "domain = b @ ''.'' @ c"
    using d0 tl_parts by (simp add: b_def c_def)
  have "list_all email_char b" "list_all email_char c"
    using facts(3) unfolding dom by simp_all
  moreover have "list_all email_char a"
    unfolding a_def by (simp add: list_all_iff) (meson set_takeWhileD)
  moreover have "e = a @ ''@'' @ b @ ''.'' @ c"
    using e dom by simp
  ultimately show "\<exists>a b c. e = a @ ''@'' @ b @ ''.'' @ c \<and> a \<noteq> [] \<and> b \<noteq> [] \<and> c \<noteq> []
        \<and> list_all email_char a \<and> list_all email_char b \<and> list_all email_char c"
    using facts(1) by (intro exI [of _ a] exI [of _ b] exI [of _ c]) (simp add: b_def c_def)
next
  assume "\<exists>a b c. e = a @ ''@'' @ b @ ''.'' @ c \<and> a \<noteq> [] \<and> b \<noteq> [] \<and> c \<noteq> []
        \<and> list_all email_char a \<and> list_all email_char b \<and> list_all email_char c"
  then obtain a b c where e: "e = a @ ''@'' @ b @ ''.'' @ c"
    and ne: "a \<noteq> []" "b \<noteq> []" "c \<noteq> []"
    and cls: "list_all email_char a" "list_all email_char b" "list_all email_char c"
    by blast
  have a_all: "\<forall>x \<in> set a. email_char x"
    using cls(1) by (simp add: list_all_iff)
  have tw: "takeWhile email_char e = a"
    unfolding e using a_all email_char_at by (simp add: takeWhile_append2)
  have dw: "dropWhile email_char e = CHR ''@'' # (b @ ''.'' @ c)"
    unfolding e using a_all email_char_at by (simp add: dropWhile_append2)
  have all: "list_all email_char (b @ ''.'' @ c)"
    using cls(2,3) email_char_dot by simp
  obtain b0 bs where b: "b = b0 # bs" using ne(2) by (cases b) auto
  have "butlast (tl (b @ ''.'' @ c)) = bs @ CHR ''.'' # butlast c"
    using ne(3) by (simp add: b butlast_append)
  then have dot: "CHR ''.'' \<in> set (butlast (tl (b @ ''.'' @ c)))"
    by simp
  show "isValidEmail e"
    using ne(1) all dot by (simp add: isValidEmail_def tw dw)
qed

section \<open>Evaluating the example\<close>

lemmas text_eval =
  trim_def toLowerCase_def toLowerCase_char_def isWhiteSpace_def char_of_def bit_Suc_0_iff

lemmas payload_eval =
  extract_fields_def String_prop_def get_prop_def String_or_empty_def andThen_def
  normalizeContactType_def normalizeTenantSlug_def CONTACT_TYPES_def HONEYPOT_FIELD_def

lemmas validate_eval =
  validate_def isValidEmail_def email_char_def MAX_NAME_LEN_def MAX_EMAIL_LEN_def
  MAX_PHONE_LEN_def MAX_COMPANY_NAME_LEN_def MAX_MESSAGE_LEN_def

lemmas example_eval =
  example_request_def example_env_def example_world_def example_backend_def
  example_settings_def example_payload_def example_members_def example_fields_def

lemmas handler_eval =
  handler_def screen_def admit_def select_settings_def rpc_rate_limit_def
  check_and_increment_rate_limit_def date_trunc_hour_def insert_submission_def
  submission_row_def allowedOrigins_def p_limit_def getRequestOrigin_def getClientIp_def
  getUserAgent_def truthy_def STEALTH_MODE_ALWAYS_200_def

lemma example_extracts: "extract_fields example_payload = Inr example_fields"
  by (simp add: example_payload_def example_members_def example_fields_def payload_eval text_eval)

lemma example_valid: "validate example_fields = None"
  by (simp add: example_fields_def validate_eval text_eval)

lemma example_enters:
  "req_method example_request = ''POST''"
  "truthy (example_env ''SUPABASE_URL'') \<noteq> None"
  "truthy (example_env ''SUPABASE_SERVICE_ROLE_KEY'') \<noteq> None"
  "body example_request = Some example_payload"
  "getRequestOrigin example_request = ''https://cf-obras-civiles-web-kplb.bolt.host''"
  by (simp_all add: example_request_def example_env_def truthy_def getRequestOrigin_def)

lemma example_resolves:
  "honeypot example_fields = []"
  "\<not> settings_error example_backend"
  "tenant_contact_settings example_world (tenant example_fields) = Some example_settings"
  "enabled example_settings"
  by (simp_all add: example_fields_def example_backend_def example_world_def example_settings_def)

lemma example_headers:
  "getClientIp example_request = ''0.0.0.0''"
  "getUserAgent example_request = []"
  "allowedOrigins example_settings = [''https://cf-obras-civiles-web-kplb.bolt.host'']"
  by (simp_all add: getClientIp_def getUserAgent_def truthy_def example_request_def
        allowedOrigins_def example_settings_def)

lemma example_origin:
  "getRequestOrigin example_request \<noteq> []"
  "getRequestOrigin example_request \<in> set (allowedOrigins example_settings)"
  by (simp_all add: example_enters(5) example_headers(3))

lemma example_rate_limit:
  "rpc_rate_limit example_backend example_world (tenant example_fields) ''0.0.0.0''
       (p_limit example_settings)
     = ((Some True, False),
        example_world\<lparr>rate_limit_counters := [(''cfobras'', ''0.0.0.0'', 0) \<mapsto> 1]\<rparr>)"
  by (simp add: rpc_rate_limit_def check_and_increment_rate_limit_def date_trunc_hour_def
        p_limit_def example_fields_def example_backend_def example_world_def example_settings_def)

lemma example_insert:
  "insert_submission example_backend w1 row =
     Inr (False, w1\<lparr>form_submissions := form_submissions w1 @ [row]\<rparr>)"
  "form_submissions example_world = []"
  by (simp_all add: insert_submission_def example_backend_def example_world_def)

section \<open>The stages of the handler\<close>

text \<open>
  A POST request in a configured deployment whose body is JSON and whose fields are
  extracted without an exception is answered by \<open>screen\<close>.
\<close>

lemma handler_pipeline:
  assumes "req_method req = ''POST''"
    and "truthy (env ''SUPABASE_URL'') \<noteq> None"
    and "truthy (env ''SUPABASE_SERVICE_ROLE_KEY'') \<noteq> None"
    and "body req = Some payload"
    and "extract_fields payload = Inr f"
  shows "handler b env w req =
           (Inr (fst (screen b w req (getRequestOrigin req) f)),
            snd (screen b w req (getRequestOrigin req) f))"
  using assms by (auto simp: handler_def Let_def split: prod.splits)

lemma screen_honeypot:
  "honeypot f \<noteq> [] \<Longrightarrow> screen b w req origin f = (okStealth origin, w)"
  by (simp add: screen_def)

lemma screen_invalid:
  "validate f = Some code \<Longrightarrow> screen b w req origin f = (okStealth origin, w)"
  by (simp add: screen_def STEALTH_MODE_ALWAYS_200_def)

lemma screen_unresolved:
  assumes "settings_error b \<or> tenant_contact_settings w (tenant f) = None
             \<or> (\<exists>st. tenant_contact_settings w (tenant f) = Some st \<and> \<not> enabled st)"
  shows "screen b w req origin f = (okStealth origin, w)"
  using assms
  by (auto simp: screen_def select_settings_def STEALTH_MODE_ALWAYS_200_def split: option.splits)

lemma screen_resolved:
  assumes "honeypot f = []" and "validate f = None" and "\<not> settings_error b"
    and "tenant_contact_settings w (tenant f) = Some st" and "enabled st"
  shows "screen b w req origin f = admit b w req origin f st"
  using assms by (simp add: screen_def select_settings_def)

lemma admit_origin_rejected:
  assumes "origin = [] \<or> origin \<notin> set (allowedOrigins st)"
  shows "admit b w req origin f st = (okStealth origin, w)"
  using assms by (auto simp: admit_def STEALTH_MODE_ALWAYS_200_def)

lemma admit_rate_limited:
  assumes "origin \<noteq> []" and "origin \<in> set (allowedOrigins st)"
    and "rpc_rate_limit b w (tenant f) (getClientIp req) (p_limit st) = ((allowed, rlErr), w1)"
    and "rlErr \<or> allowed \<noteq> Some True"
  shows "admit b w req origin f st = (okStealth origin, w1)"
  using assms by (auto simp: admit_def STEALTH_MODE_ALWAYS_200_def Let_def)

lemma admit_admitted:
  assumes "origin \<noteq> []" and "origin \<in> set (allowedOrigins st)"
    and "rpc_rate_limit b w (tenant f) (getClientIp req) (p_limit st) = ((Some True, False), w1)"
  shows "admit b w req origin f st =
           (jsonResponse 200 ok_body (corsHeaders origin),
            case insert_submission b w1 (submission_row f (getClientIp req) (getUserAgent req)) of
              Inl e \<Rightarrow> w1
            | Inr (insertErr, w') \<Rightarrow> w')"
  using assms by (simp add: admit_def Let_def)

text \<open>The RPC touches nothing but the counters.\<close>

lemma rpc_rate_limit_world:
  "rpc_rate_limit b w t ip l = (r, w1) \<Longrightarrow>
     tenant_contact_settings w1 = tenant_contact_settings w
     \<and> form_submissions w1 = form_submissions w \<and> slack_posts w1 = slack_posts w"
  by (auto simp: rpc_rate_limit_def check_and_increment_rate_limit_def Let_def
           split: if_splits option.splits sum.splits prod.splits)

text \<open>The stages after the extraction read the headers of the request only.\<close>

lemma getClientIp_body: "getClientIp (req\<lparr>body := x\<rparr>) = getClientIp req"
  by (simp add: getClientIp_def split: option.splits)

lemma getUserAgent_body: "getUserAgent (req\<lparr>body := x\<rparr>) = getUserAgent req"
  by (simp add: getUserAgent_def)

lemma getRequestOrigin_body: "getRequestOrigin (req\<lparr>body := x\<rparr>) = getRequestOrigin req"
  by (simp add: getRequestOrigin_def)

lemma admit_body: "admit b w (req\<lparr>body := x\<rparr>) origin f st = admit b w req origin f st"
  by (simp add: admit_def getClientIp_body getUserAgent_body)

lemma screen_body: "screen b w (req\<lparr>body := x\<rparr>) origin f = screen b w req origin f"
  by (simp add: screen_def admit_body split: option.splits prod.splits)


lemma rpc_rate_limit_insert_result:
  "rpc_rate_limit (b\<lparr>insert_result := out\<rparr>) w t ip l = rpc_rate_limit b w t ip l"
  by (simp add: rpc_rate_limit_def cong: option.case_cong)


lemma andThen_Inr: "andThen (Inr x) f = f x"
  by (simp add: andThen_def)

section \<open>Payloads of the declared type\<close>

lemma text_member_String_prop:
  "text_member kvs k \<Longrightarrow> \<exists>s. String_prop (JObj kvs) k = Inr s"
  by (auto simp: text_member_def String_prop_def get_prop_def andThen_def String_or_empty_def
           split: option.splits json.splits)

lemma text_member_contact_type:
  "text_member kvs ''contact_type'' \<Longrightarrow>
     \<exists>ct. andThen (get_prop (JObj kvs) ''contact_type'') normalizeContactType = Inr ct"
  by (auto simp: text_member_def get_prop_def andThen_def String_or_empty_def
        normalizeContactType_def Let_def
           split: option.splits json.splits)

text \<open>The extraction of the fields throws on no payload of the declared type.\<close>

lemma ContactPayload_extracts:
  assumes "is_ContactPayload p"
  shows "\<exists>f. extract_fields p = Inr f"
proof -
  obtain kvs where p: "p = JObj kvs"
    using assms by (cases p) (simp_all add: is_ContactPayload_def)
  have m: "text_member kvs ''tenant''" "text_member kvs ''name''" "text_member kvs ''email''"
    "text_member kvs ''phone''" "text_member kvs ''company_name''"
    "text_member kvs ''contact_type''" "text_member kvs ''message''"
    "text_member kvs HONEYPOT_FIELD"
    using assms by (simp_all add: is_ContactPayload_def p)
  obtain s1 s2 s3 s4 s5 ct s7 s8 where
    "String_prop (JObj kvs) ''tenant'' = Inr s1"
    "String_prop (JObj kvs) ''name'' = Inr s2"
    "String_prop (JObj kvs) ''email'' = Inr s3"
    "String_prop (JObj kvs) ''phone'' = Inr s4"
    "String_prop (JObj kvs) ''company_name'' = Inr s5"
    "andThen (get_prop (JObj kvs) ''contact_type'') normalizeContactType = Inr ct"
    "String_prop (JObj kvs) ''message'' = Inr s7"
    "String_prop (JObj kvs) HONEYPOT_FIELD = Inr s8"
    using m text_member_String_prop text_member_contact_type by meson
  then show ?thesis
    by (simp add: p extract_fields_def andThen_Inr)
qed

section \<open>The honeypot\<close>

text \<open>
  Claim C2, as amended. For every POST request in a configured deployment whose body is
  JSON, whose fields are extracted without an exception and whose honeypot field
  \<open>company_website\<close> is not empty after conversion to text and trimming, the handler
  answers with the stealth response, whatever the other fields, the tenant, the origin,
  the database and its failures are: nothing is validated, resolved or counted, and the
  world is left as it was (no audit row, no notification, no counter).
\<close>

theorem honeypot_rejects_before_other_checks:
  assumes "req_method req = ''POST''"
    and "truthy (env ''SUPABASE_URL'') \<noteq> None"
    and "truthy (env ''SUPABASE_SERVICE_ROLE_KEY'') \<noteq> None"
    and "body req = Some payload"
    and "extract_fields payload = Inr f"
    and "honeypot f \<noteq> []"
  shows "handler b env w req = (Inr (okStealth (getRequestOrigin req)), w)"
  using assms by (simp add: handler_pipeline [of req env payload f] screen_honeypot)

text \<open>The README's request with the honeypot filled in.\<close>

theorem honeypot_rejects_before_other_checks_witness:
  "handler example_backend example_env example_world
     (example_request\<lparr>body :=
        Some (JObj (example_members @ [(''company_website'', JStr ''http://spam.example'')]))\<rparr>)
   = (Inr (okStealth ''https://cf-obras-civiles-web-kplb.bolt.host''), example_world)"
  using honeypot_rejects_before_other_checks
          [of "example_request\<lparr>body :=
                 Some (JObj (example_members @ [(''company_website'', JStr ''http://spam.example'')]))\<rparr>"
              example_env
              "JObj (example_members @ [(''company_website'', JStr ''http://spam.example'')])"
              "example_fields\<lparr>honeypot := ''http://spam.example''\<rparr>"
              example_backend example_world]
  by (simp add: example_eval payload_eval text_eval truthy_def getRequestOrigin_def)

text \<open>
  Claim C2 as stated fails for a honeypot that holds white space only: the value is not
  empty, the handler trims it to the empty text, and the README's request with two
  spaces in \<open>company_website\<close> is admitted, with its audit row and its counter.
\<close>

theorem honeypot_of_blanks_counterexample:
  "String_prop (JObj (example_members @ [(''company_website'', JStr ''  '')])) HONEYPOT_FIELD = Inr ''  ''
   \<and> form_submissions (snd (handler example_backend example_env example_world
         (example_request\<lparr>body :=
            Some (JObj (example_members @ [(''company_website'', JStr ''  '')]))\<rparr>)))
       = [submission_row example_fields ''0.0.0.0'' []]
   \<and> rate_limit_counters (snd (handler example_backend example_env example_world
         (example_request\<lparr>body :=
            Some (JObj (example_members @ [(''company_website'', JStr ''  '')]))\<rparr>)))
         (''cfobras'', ''0.0.0.0'', 0) = Some 1"
proof -
  have f: "extract_fields (JObj (example_members @ [(''company_website'', JStr ''  '')])) = Inr example_fields"
    by (simp add: example_eval payload_eval text_eval)
  have v: "validate example_fields = None"
    by (rule example_valid)
  show ?thesis
    by (simp add: handler_def f screen_def v Let_def)
       (simp add: example_eval handler_eval payload_eval)
qed

section \<open>The notification\<close>

lemma insert_submission_slack:
  "insert_submission b w1 row = Inr (e, w') \<Longrightarrow> slack_posts w' = slack_posts w1"
  by (auto simp: insert_submission_def split: insert_outcome.splits)

lemma admit_slack: "slack_posts (snd (admit b w req origin f st)) = slack_posts w"
proof -
  obtain allowed rlErr w1 where
    rpc: "rpc_rate_limit b w (tenant f) (getClientIp req) (p_limit st) = ((allowed, rlErr), w1)"
    by (metis prod.exhaust)
  have w1: "slack_posts w1 = slack_posts w"
    using rpc_rate_limit_world [OF rpc] by simp
  show ?thesis
    using w1
    by (auto simp: admit_def Let_def rpc dest: insert_submission_slack split: sum.splits)
qed

lemma screen_slack: "slack_posts (snd (screen b w req origin f)) = slack_posts w"
  by (auto simp: screen_def admit_slack split: option.splits prod.splits)

text \<open>No request makes the handler post to Slack.\<close>

lemma handler_posts_nothing: "slack_posts (snd (handler b env w req)) = slack_posts w"
proof -
  have "slack_posts (snd (case screen b w req origin f of (r, w') \<Rightarrow> (Inr r :: js_error + response, w')))
          = slack_posts w" for origin f
    using screen_slack [of b w req origin f] by (auto split: prod.splits)
  then show ?thesis
    by (simp add: handler_def Let_def split: option.splits sum.splits)
qed

text \<open>
  Claim C3 says that a request that passes every admission check leads to exactly one
  delivery attempt to the tenant's notification target, after the audit attempt. The
  handler makes none: the README's request to the seed tenant passes every check, is
  answered with the success response and leaves its audit row, and no webhook call is
  made.
\<close>

theorem admitted_request_posts_nothing_to_slack:
  "fst (handler example_backend example_env example_world example_request)
     = Inr (jsonResponse 200 ok_body (corsHeaders ''https://cf-obras-civiles-web-kplb.bolt.host''))
   \<and> form_submissions (snd (handler example_backend example_env example_world example_request))
     = [submission_row example_fields ''0.0.0.0'' []]
   \<and> slack_posts (snd (handler example_backend example_env example_world example_request)) = []"
proof -
  have f: "extract_fields example_payload = Inr example_fields"
    by (rule example_extracts)
  have v: "validate example_fields = None"
    by (rule example_valid)
  have body: "body example_request = Some example_payload"
    by (simp add: example_request_def)
  show ?thesis
    by (simp add: handler_def body f screen_def v Let_def)
       (simp add: example_eval handler_eval)
qed

section \<open>The stealth response\<close>

text \<open>
  Whenever the fields are extracted without an exception, or the body is not JSON text
  at all, a POST request in a configured deployment is answered with status 200 and the
  body of a success, whether it is admitted or rejected and whatever the reason.
\<close>

lemma admit_answers_ok:
  "status (fst (admit b w req origin f st)) = 200
   \<and> resp_body (fst (admit b w req origin f st)) = Some ok_body"
  by (auto simp: admit_def Let_def STEALTH_MODE_ALWAYS_200_def okStealth_def jsonResponse_def
        split: prod.splits)

lemma screen_answers_ok:
  "status (fst (screen b w req origin f)) = 200
   \<and> resp_body (fst (screen b w req origin f)) = Some ok_body"
  by (auto simp: screen_def admit_answers_ok STEALTH_MODE_ALWAYS_200_def okStealth_def
        jsonResponse_def split: option.splits prod.splits)

lemma pipeline_answers_ok:
  assumes "req_method req = ''POST''"
    and "truthy (env ''SUPABASE_URL'') \<noteq> None"
    and "truthy (env ''SUPABASE_SERVICE_ROLE_KEY'') \<noteq> None"
    and "body req = None \<or> (\<exists>payload f. body req = Some payload \<and> extract_fields payload = Inr f)"
  shows "\<exists>r w'. handler b env w req = (Inr r, w') \<and> status r = 200 \<and> resp_body r = Some ok_body"
proof (cases "body req")
  case None
  then show ?thesis
    using assms(1-3)
    by (auto simp: handler_def Let_def STEALTH_MODE_ALWAYS_200_def okStealth_def jsonResponse_def)
next
  case (Some payload)
  then obtain f where f: "extract_fields payload = Inr f"
    using assms(4) by auto
  show ?thesis
    using handler_pipeline [OF assms(1-3) Some f, of b w] screen_answers_ok [of b w req _ f]
    by simp
qed

text \<open>
  Claim C4 says that every rejected request, a malformed payload among them, is answered
  with status 200 and the body of a success. A body that is the JSON text \<open>null\<close> is
  parsed without error, and the first read of a member of the payload throws: the
  handler returns no response, the exception escapes to the runtime.
\<close>

theorem null_payload_escapes_stealth:
  "handler example_backend example_env example_world (example_request\<lparr>body := Some JNull\<rparr>)
     = (Inl TypeError, example_world)"
  by (simp add: handler_def Let_def example_request_def example_env_def truthy_def
        extract_fields_def String_prop_def get_prop_def andThen_def)

section \<open>Tenants that do not resolve\<close>

text \<open>
  Where the fields are extracted without an exception, a tenant that does not resolve is
  failed closed. For every such POST request in a configured deployment: if the tenant
  it names is unknown or disabled, or the settings query fails, the handler answers with
  the stealth response and leaves the world as it was (no audit row, no notification, no
  counter). The response is the same for each of the three causes, so they cannot be
  told apart.
\<close>

lemma unresolved_tenant_fails_closed:
  assumes "req_method req = ''POST''"
    and "truthy (env ''SUPABASE_URL'') \<noteq> None"
    and "truthy (env ''SUPABASE_SERVICE_ROLE_KEY'') \<noteq> None"
    and "body req = Some payload"
    and "extract_fields payload = Inr f"
    and "settings_error b \<or> tenant_contact_settings w (tenant f) = None
           \<or> (\<exists>st. tenant_contact_settings w (tenant f) = Some st \<and> \<not> enabled st)"
    and "settings_error b' \<or> tenant_contact_settings w' (tenant f) = None
           \<or> (\<exists>st. tenant_contact_settings w' (tenant f) = Some st \<and> \<not> enabled st)"
  shows "handler b env w req = (Inr (okStealth (getRequestOrigin req)), w)
       \<and> handler b' env w' req = (Inr (okStealth (getRequestOrigin req)), w')
       \<and> fst (handler b env w req) = fst (handler b' env w' req)"
proof -
  have "screen b w req (getRequestOrigin req) f = (okStealth (getRequestOrigin req), w)"
    using assms(6) by (rule screen_unresolved)
  moreover have "screen b' w' req (getRequestOrigin req) f = (okStealth (getRequestOrigin req), w')"
    using assms(7) by (rule screen_unresolved)
  ultimately show ?thesis
    using assms(1-5) by (simp add: handler_pipeline [of req env payload f])
qed

text \<open>
  The README's request when the settings query fails, when the tenant is disabled and
  when the tenant is not in the table: the same answer each time, and nothing written.
\<close>

lemma unresolved_tenant_fails_closed_example:
  "handler (example_backend\<lparr>settings_error := True\<rparr>) example_env example_world example_request
     = (Inr (okStealth ''https://cf-obras-civiles-web-kplb.bolt.host''), example_world)
   \<and> handler example_backend example_env
        (example_world\<lparr>tenant_contact_settings :=
           [''cfobras'' \<mapsto> example_settings\<lparr>enabled := False\<rparr>]\<rparr>) example_request
     = (Inr (okStealth ''https://cf-obras-civiles-web-kplb.bolt.host''),
        example_world\<lparr>tenant_contact_settings :=
           [''cfobras'' \<mapsto> example_settings\<lparr>enabled := False\<rparr>]\<rparr>)
   \<and> handler example_backend example_env
        (example_world\<lparr>tenant_contact_settings := Map.empty\<rparr>) example_request
     = (Inr (okStealth ''https://cf-obras-civiles-web-kplb.bolt.host''),
        example_world\<lparr>tenant_contact_settings := Map.empty\<rparr>)"
proof -
  have failing: "settings_error (example_backend\<lparr>settings_error := True\<rparr>)
      \<or> tenant_contact_settings example_world (tenant example_fields) = None
      \<or> (\<exists>st. tenant_contact_settings example_world (tenant example_fields) = Some st \<and> \<not> enabled st)"
    by simp
  have disabled: "settings_error example_backend
      \<or> tenant_contact_settings
           (example_world\<lparr>tenant_contact_settings :=
              [''cfobras'' \<mapsto> example_settings\<lparr>enabled := False\<rparr>]\<rparr>) (tenant example_fields) = None
      \<or> (\<exists>st. tenant_contact_settings
           (example_world\<lparr>tenant_contact_settings :=
              [''cfobras'' \<mapsto> example_settings\<lparr>enabled := False\<rparr>]\<rparr>) (tenant example_fields) = Some st
             \<and> \<not> enabled st)"
    by (simp add: example_fields_def)
  have unknown: "settings_error example_backend
      \<or> tenant_contact_settings
           (example_world\<lparr>tenant_contact_settings := Map.empty\<rparr>) (tenant example_fields) = None
      \<or> (\<exists>st. tenant_contact_settings
           (example_world\<lparr>tenant_contact_settings := Map.empty\<rparr>) (tenant example_fields) = Some st
             \<and> \<not> enabled st)"
    by simp
  show ?thesis
    using unresolved_tenant_fails_closed
            [OF example_enters(1-4) example_extracts failing disabled]
          unresolved_tenant_fails_closed
            [OF example_enters(1-4) example_extracts failing unknown]
    by (simp only: example_enters(5))
qed

text \<open>
  Claim C5 says that every request naming a tenant that is unknown or disabled, or whose
  settings query fails, gets the uniform success response, with no audit row, no
  notification and no counter, the three causes looking alike. The handler converts
  every field to text before it looks the tenant up, and outside any \<open>try\<close>: the README's
  request with an object that has a member named \<open>toString\<close> as its \<open>phone\<close> gets no
  response at all, the exception escaping to the runtime, whether it names a tenant that
  is not in the table, the seed tenant when disabled, or the seed tenant when the
  settings query would fail. Nothing is written in any of the three cases.
\<close>

theorem unresolved_tenant_with_unconvertible_field_throws:
  "tenant_contact_settings example_world ''ghost'' = None
   \<and> handler example_backend example_env example_world
        (example_request\<lparr>body :=
           Some (JObj (example_members
                   @ [(''tenant'', JStr ''ghost''),
                      (''phone'', JObj [(''toString'', JNum ''1'')])]))\<rparr>)
      = (Inl TypeError, example_world)
   \<and> enabled (example_settings\<lparr>enabled := False\<rparr>) = False
   \<and> handler example_backend example_env
        (example_world\<lparr>tenant_contact_settings :=
           [''cfobras'' \<mapsto> example_settings\<lparr>enabled := False\<rparr>]\<rparr>)
        (example_request\<lparr>body :=
           Some (JObj (example_members @ [(''phone'', JObj [(''toString'', JNum ''1'')])]))\<rparr>)
      = (Inl TypeError,
         example_world\<lparr>tenant_contact_settings :=
           [''cfobras'' \<mapsto> example_settings\<lparr>enabled := False\<rparr>]\<rparr>)
   \<and> handler (example_backend\<lparr>settings_error := True\<rparr>) example_env example_world
        (example_request\<lparr>body :=
           Some (JObj (example_members @ [(''phone'', JObj [(''toString'', JNum ''1'')])]))\<rparr>)
      = (Inl TypeError, example_world)"
proof -
  have ghost: "extract_fields (JObj (example_members
                   @ [(''tenant'', JStr ''ghost''),
                      (''phone'', JObj [(''toString'', JNum ''1'')])])) = Inl TypeError"
    by (simp add: example_members_def payload_eval)
  have known: "extract_fields (JObj (example_members
                   @ [(''phone'', JObj [(''toString'', JNum ''1'')])])) = Inl TypeError"
    by (simp add: example_members_def payload_eval)
  have env: "truthy (example_env ''SUPABASE_URL'') \<noteq> None"
    "truthy (example_env ''SUPABASE_SERVICE_ROLE_KEY'') \<noteq> None"
    by (rule example_enters(2), rule example_enters(3))
  show ?thesis
    using env
    by (simp add: handler_def Let_def ghost known example_request_def example_world_def)
qed

section \<open>The origin allowlist\<close>



section \<open>The contact type\<close>

text \<open>
  On every value that \<open>String\<close> converts, the coercion gives the trimmed lower-case text
  when that is one of the four contact types and \<open>general_query\<close> otherwise; whenever it
  returns, it returns one of the four.
\<close>

lemma normalizeContactType_of_text:
  assumes "String_or_empty v = Inr s"
  shows "normalizeContactType v =
           Inr (if toLowerCase (trim s) \<in> set CONTACT_TYPES then toLowerCase (trim s)
                else ''general_query'')"
  using assms by (simp add: normalizeContactType_def andThen_def Let_def)

lemma normalizeContactType_closed:
  "normalizeContactType v = Inr ct \<Longrightarrow> ct \<in> set CONTACT_TYPES"
  by (auto simp: normalizeContactType_def andThen_def Let_def CONTACT_TYPES_def
           split: sum.splits if_splits)

lemma normalizeContactType_examples:
  "normalizeContactType (Some (JStr ''BUDGET_REQUEST'')) = Inr ''budget_request''"
  "normalizeContactType (Some (JStr ''nonsense'')) = Inr ''general_query''"
  "normalizeContactType None = Inr ''general_query''"
  "normalizeContactType (Some JNull) = Inr ''general_query''"
  by (simp_all add: normalizeContactType_def String_or_empty_def andThen_def CONTACT_TYPES_def
        text_eval)

text \<open>
  Claim C7 says that the coercion maps any input into the four contact types, every
  value that is not one of them going to \<open>general_query\<close>. For a \<open>contact_type\<close> that is
  an object with a member named \<open>toString\<close> the conversion to text throws: the coercion
  returns nothing, and the README's request with such a \<open>contact_type\<close> gets no response
  from the handler.
\<close>

theorem contact_type_object_throws:
  "normalizeContactType (Some (JObj [(''toString'', JNum ''1'')])) = Inl TypeError
   \<and> handler example_backend example_env example_world
        (example_request\<lparr>body :=
           Some (JObj (example_members @ [(''contact_type'', JObj [(''toString'', JNum ''1'')])]))\<rparr>)
      = (Inl TypeError, example_world)"
proof -
  have "extract_fields (JObj (example_members @ [(''contact_type'', JObj [(''toString'', JNum ''1'')])]))
          = Inl TypeError"
    by (simp add: example_members_def payload_eval)
  then show ?thesis
    by (simp add: handler_def Let_def example_request_def example_env_def truthy_def
          normalizeContactType_def String_or_empty_def andThen_def)
qed

section \<open>Tenant normalization\<close>

lemma toLowerCase_char_idem: "toLowerCase_char (toLowerCase_char c) = toLowerCase_char c"
  unfolding toLowerCase_char_def Let_def by (auto simp: mod_if)

lemma isWhiteSpace_toLowerCase_char: "isWhiteSpace (toLowerCase_char c) = isWhiteSpace c"
  unfolding toLowerCase_char_def Let_def isWhiteSpace_def by (auto simp: mod_if)

lemma toLowerCase_idem: "toLowerCase (toLowerCase s) = toLowerCase s"
  by (simp add: toLowerCase_def toLowerCase_char_idem)

lemma dropWhile_space_toLowerCase:
  "dropWhile isWhiteSpace (toLowerCase s) = toLowerCase (dropWhile isWhiteSpace s)"
  by (induction s) (simp_all add: toLowerCase_def isWhiteSpace_toLowerCase_char)

text \<open>Trimming and lower-casing can be done in either order.\<close>

lemma trim_toLowerCase: "trim (toLowerCase s) = toLowerCase (trim s)"
proof -
  have rev: "rev (toLowerCase xs) = toLowerCase (rev xs)" for xs
    by (simp add: toLowerCase_def rev_map)
  show ?thesis
    by (simp add: trim_def dropWhile_space_toLowerCase rev)
qed

lemma dropWhile_fixed: "xs = [] \<or> \<not> P (hd xs) \<Longrightarrow> dropWhile P xs = xs"
  by (cases xs) auto

lemma trim_idem: "trim (trim s) = trim s"
proof -
  define t where "t = dropWhile isWhiteSpace s"
  define u where "u = rev (dropWhile isWhiteSpace (rev t))"
  have t_head: "t = [] \<or> \<not> isWhiteSpace (hd t)"
    unfolding t_def by (metis hd_dropWhile)
  have parts: "t = u @ rev (takeWhile isWhiteSpace (rev t))"
    unfolding u_def by (metis rev_append rev_rev_ident takeWhile_dropWhile_id)
  have u_head: "u = [] \<or> \<not> isWhiteSpace (hd u)"
  proof (cases "u = []")
    case True
    then show ?thesis by simp
  next
    case False
    then have "hd t = hd u" using parts by (metis hd_append2)
    moreover have "t \<noteq> []" using False parts by auto
    ultimately show ?thesis using t_head by simp
  qed
  have front: "dropWhile isWhiteSpace u = u"
    using u_head by (rule dropWhile_fixed)
  have rear: "rev (dropWhile isWhiteSpace (rev u)) = u"
    unfolding u_def by simp
  have "trim s = u" by (simp add: trim_def t_def u_def)
  moreover have "trim u = u" by (simp add: trim_def front rear)
  ultimately show ?thesis by simp
qed

lemma normalizeTenantSlug_idem: "normalizeTenantSlug (normalizeTenantSlug s) = normalizeTenantSlug s"
  by (simp add: normalizeTenantSlug_def trim_toLowerCase toLowerCase_idem trim_idem)

lemma normalizeTenantSlug_commutes: "normalizeTenantSlug (trim (toLowerCase s)) = normalizeTenantSlug s"
  by (simp add: normalizeTenantSlug_def trim_toLowerCase toLowerCase_idem trim_idem)

lemma get_prop_last_member:
  "get_prop (JObj (kvs @ [(k, v)])) k' = (if k' = k then Inr (Some v) else get_prop (JObj kvs) k')"
  by (simp add: get_prop_def)

lemma String_prop_last_member:
  "String_prop (JObj (kvs @ [(k, v)])) k' =
     (if k' = k then String_or_empty (Some v) else String_prop (JObj kvs) k')"
  by (simp add: String_prop_def get_prop_last_member andThen_Inr)

lemma extract_fields_tenant:
  "extract_fields (JObj (kvs @ [(''tenant'', JStr (trim (toLowerCase s)))])) =
   extract_fields (JObj (kvs @ [(''tenant'', JStr s)]))"
  by (simp add: extract_fields_def String_prop_last_member get_prop_last_member HONEYPOT_FIELD_def
        String_or_empty_def andThen_Inr normalizeTenantSlug_commutes)

text \<open>
  Claim C8. The normalization of the tenant identifier is idempotent, and an identifier
  \<open>s\<close> and its trimmed lower-case form normalize to the same slug. So they resolve to the
  same settings, and the handler does the same, answer and effects, for a request whose
  \<open>tenant\<close> is \<open>s\<close> as for the request whose \<open>tenant\<close> is the trimmed lower-case form of
  \<open>s\<close>.
\<close>

theorem tenant_normalization_is_idempotent:
  "normalizeTenantSlug (normalizeTenantSlug s) = normalizeTenantSlug s
   \<and> normalizeTenantSlug (trim (toLowerCase s)) = normalizeTenantSlug s
   \<and> select_settings b w (normalizeTenantSlug (trim (toLowerCase s)))
       = select_settings b w (normalizeTenantSlug s)
   \<and> handler b env w (req\<lparr>body := Some (JObj (kvs @ [(''tenant'', JStr (trim (toLowerCase s)))]))\<rparr>)
       = handler b env w (req\<lparr>body := Some (JObj (kvs @ [(''tenant'', JStr s)]))\<rparr>)"
  by (simp add: normalizeTenantSlug_idem normalizeTenantSlug_commutes handler_def
        extract_fields_tenant screen_body getRequestOrigin_body Let_def
        cong: if_cong option.case_cong sum.case_cong)

text \<open>
  The identifiers \<open>"  CfObras "\<close> and \<open>"cfobras"\<close> normalize to \<open>cfobras\<close> and resolve to
  the settings of the seed tenant, and the README's request is handled alike with either.
\<close>

theorem tenant_normalization_is_idempotent_witness:
  "normalizeTenantSlug ''  CfObras '' = ''cfobras''
   \<and> normalizeTenantSlug ''cfobras'' = ''cfobras''
   \<and> select_settings example_backend example_world (normalizeTenantSlug ''  CfObras '')
       = (Some example_settings, False)
   \<and> select_settings example_backend example_world (normalizeTenantSlug ''cfobras'')
       = (Some example_settings, False)
   \<and> handler example_backend example_env example_world
         (example_request\<lparr>body := Some (JObj (example_members @ [(''tenant'', JStr ''cfobras'')]))\<rparr>)
       = handler example_backend example_env example_world
         (example_request\<lparr>body := Some (JObj (example_members @ [(''tenant'', JStr ''  CfObras '')]))\<rparr>)"
proof -
  have n: "trim (toLowerCase ''  CfObras '') = ''cfobras''"
    by (simp add: text_eval)
  have m: "normalizeTenantSlug ''  CfObras '' = ''cfobras''"
    by (simp add: normalizeTenantSlug_def text_eval)
  show ?thesis
    using tenant_normalization_is_idempotent
            [where s = "''  CfObras ''" and b = example_backend and w = example_world
               and env = example_env and req = example_request and kvs = example_members]
    by (simp add: n m select_settings_def example_backend_def example_world_def)
qed

section \<open>The audit row\<close>

text \<open>
  Claim C9. For a request that passes every admission check (fields extracted and valid,
  honeypot empty, tenant resolved and enabled, origin allowed, rate limiter admitting),
  the response is the success response with status 200 whatever becomes of the insert of
  the audit row: whether it succeeds, returns an error or throws. The outcome of the
  insert decides only whether the row is in the table afterwards.
\<close>

theorem audit_outcome_never_changes_response:
  assumes "req_method req = ''POST''"
    and "truthy (env ''SUPABASE_URL'') \<noteq> None"
    and "truthy (env ''SUPABASE_SERVICE_ROLE_KEY'') \<noteq> None"
    and "body req = Some payload"
    and "extract_fields payload = Inr f"
    and "honeypot f = []"
    and "validate f = None"
    and "\<not> settings_error b"
    and "tenant_contact_settings w (tenant f) = Some st"
    and "enabled st"
    and "getRequestOrigin req \<noteq> []"
    and "getRequestOrigin req \<in> set (allowedOrigins st)"
    and "rpc_rate_limit b w (tenant f) (getClientIp req) (p_limit st) = ((Some True, False), w1)"
  shows "fst (handler (b\<lparr>insert_result := out\<rparr>) env w req)
           = Inr (jsonResponse 200 ok_body (corsHeaders (getRequestOrigin req)))
       \<and> snd (handler (b\<lparr>insert_result := out\<rparr>) env w req)
           = (if out = InsertOk
              then w1\<lparr>form_submissions :=
                        form_submissions w1
                          @ [submission_row f (getClientIp req) (getUserAgent req)]\<rparr>
              else w1)"
proof -
  let ?b = "b\<lparr>insert_result := out\<rparr>"
  have resolved: "screen ?b w req (getRequestOrigin req) f = admit ?b w req (getRequestOrigin req) f st"
    using assms(6-10) by (simp add: screen_resolved)
  have rpc: "rpc_rate_limit ?b w (tenant f) (getClientIp req) (p_limit st) = ((Some True, False), w1)"
    using assms(13) by (simp add: rpc_rate_limit_insert_result)
  have admitted: "admit ?b w req (getRequestOrigin req) f st =
           (jsonResponse 200 ok_body (corsHeaders (getRequestOrigin req)),
            case insert_submission ?b w1 (submission_row f (getClientIp req) (getUserAgent req)) of
              Inl e \<Rightarrow> w1
            | Inr (insertErr, w') \<Rightarrow> w')"
    using assms(11,12) rpc by (rule admit_admitted)
  have h: "handler ?b env w req =
           (Inr (fst (screen ?b w req (getRequestOrigin req) f)),
            snd (screen ?b w req (getRequestOrigin req) f))"
    using assms(1-5) by (rule handler_pipeline)
  show ?thesis
    unfolding h resolved admitted
    by (cases out) (simp_all add: insert_submission_def)
qed

text \<open>The README's request with each of the three outcomes of the insert.\<close>

theorem audit_outcome_never_changes_response_witness:
  "fst (handler (example_backend\<lparr>insert_result := InsertOk\<rparr>) example_env example_world example_request)
     = Inr (jsonResponse 200 ok_body (corsHeaders ''https://cf-obras-civiles-web-kplb.bolt.host''))
   \<and> fst (handler (example_backend\<lparr>insert_result := InsertError\<rparr>) example_env example_world example_request)
     = Inr (jsonResponse 200 ok_body (corsHeaders ''https://cf-obras-civiles-web-kplb.bolt.host''))
   \<and> fst (handler (example_backend\<lparr>insert_result := InsertThrows\<rparr>) example_env example_world example_request)
     = Inr (jsonResponse 200 ok_body (corsHeaders ''https://cf-obras-civiles-web-kplb.bolt.host''))
   \<and> form_submissions (snd (handler (example_backend\<lparr>insert_result := InsertThrows\<rparr>)
         example_env example_world example_request)) = []"
proof -
  have rpc: "rpc_rate_limit example_backend example_world (tenant example_fields)
               (getClientIp example_request) (p_limit example_settings)
             = ((Some True, False),
                example_world\<lparr>rate_limit_counters := [(''cfobras'', ''0.0.0.0'', 0) \<mapsto> 1]\<rparr>)"
    by (simp add: example_headers(1) example_rate_limit)
  note run = audit_outcome_never_changes_response
               [OF example_enters(1-4) example_extracts example_resolves(1) example_valid
                   example_resolves(2-4) example_origin rpc]
  show ?thesis
    using run [of InsertOk] run [of InsertError] run [of InsertThrows]
    by (simp add: example_enters(5) example_insert(2))
qed



end
